theory Spec2Isabelle
  imports Main "HOL-Library.Word"
begin

unbundle bit_operations_syntax

section \<open>Python values used by the program\<close>

text \<open>
  A Python \<open>str\<close> is a sequence of Unicode code points, so it is modelled as a list of
  natural numbers; \<open>lit\<close> turns an Isabelle string literal into such a sequence. A value
  of Python's \<open>str\<close> holds code points below \<open>0x110000\<close> only, and it may hold
  surrogate code points (\<open>U+D800\<close> to \<open>U+DFFF\<close>), as \<open>"\ud800"\<close> does.
  \<open>encodable\<close> holds of the code points UTF-8 has an encoding for: all but the
  surrogates. A number from \<open>0x110000\<close> on is no code point and occurs in no
  \<open>str\<close>; the model treats it like a surrogate.
\<close>

type_synonym pystr = "nat list"

definition lit :: "string \<Rightarrow> pystr" where
  "lit s = map of_char s"

definition is_surrogate :: "nat \<Rightarrow> bool" where
  "is_surrogate c = (0xD800 \<le> c \<and> c \<le> 0xDFFF)"

definition encodable :: "nat \<Rightarrow> bool" where
  "encodable c = (c < 0x110000 \<and> \<not> is_surrogate c)"

definition encodable_str :: "pystr \<Rightarrow> bool" where
  "encodable_str s = list_all encodable s"

section \<open>func.py: port derivation\<close>

definition MIN_PORT :: int where
  "MIN_PORT = 10000"

definition MAX_PORT :: int where
  "MAX_PORT = 60000"

definition DEFAULT_MODEL_ID :: pystr where
  "DEFAULT_MODEL_ID = lit ''LiheYoung/depth-anything-large-hf''"

subsection \<open>\<open>str.encode()\<close>: UTF-8\<close>

text \<open>
  \<open>input_string.encode()\<close> encodes with UTF-8 and the \<open>strict\<close> error handler: it raises
  \<open>UnicodeEncodeError\<close> at the first surrogate code point. The error carries the
  offending code point and its index in the string.
\<close>

datatype encode_error = UnicodeEncodeError nat nat

definition utf8_char :: "nat \<Rightarrow> 8 word list" where
  "utf8_char c =
     (if c < 0x80 then [of_nat c]
      else if c < 0x800 then
        [of_nat (0xC0 + c div 0x40), of_nat (0x80 + c mod 0x40)]
      else if c < 0x10000 then
        [of_nat (0xE0 + c div 0x1000), of_nat (0x80 + c div 0x40 mod 0x40),
         of_nat (0x80 + c mod 0x40)]
      else
        [of_nat (0xF0 + c div 0x40000), of_nat (0x80 + c div 0x1000 mod 0x40),
         of_nat (0x80 + c div 0x40 mod 0x40), of_nat (0x80 + c mod 0x40)])"

fun encode_from :: "nat \<Rightarrow> pystr \<Rightarrow> encode_error + 8 word list" where
  "encode_from i [] = Inr []"
| "encode_from i (c # cs) =
     (if \<not> encodable c then Inl (UnicodeEncodeError c i)
      else (case encode_from (Suc i) cs of
              Inl e \<Rightarrow> Inl e
            | Inr bs \<Rightarrow> Inr (utf8_char c @ bs)))"

definition encode :: "pystr \<Rightarrow> encode_error + 8 word list" where
  "encode s = encode_from 0 s"

subsection \<open>\<open>zlib.crc32\<close>\<close>

text \<open>
  \<open>zlib.crc32\<close> is the CRC-32 of ISO 3309 (reflected polynomial \<open>0xEDB88320\<close>, initial
  value and final complement \<open>0xFFFFFFFF\<close>), computed bit by bit here. Python 3 returns
  it as an unsigned integer.
\<close>

definition crc32_shift :: "32 word \<Rightarrow> 32 word" where
  "crc32_shift c =
     (if c AND 1 = 1 then drop_bit 1 c XOR 0xEDB88320 else drop_bit 1 c)"

definition crc32_byte :: "32 word \<Rightarrow> 8 word \<Rightarrow> 32 word" where
  "crc32_byte c b = (crc32_shift ^^ 8) (c XOR ucast b)"

definition zlib_crc32 :: "8 word list \<Rightarrow> int" where
  "zlib_crc32 bs = uint (foldl crc32_byte 0xFFFFFFFF bs XOR 0xFFFFFFFF)"

subsection \<open>\<open>string_to_port_crc32\<close>\<close>

definition string_to_port_crc32 :: "pystr \<Rightarrow> encode_error + int" where
  "string_to_port_crc32 input_string =
     (case encode input_string of
        Inl e \<Rightarrow> Inl e
      | Inr bs \<Rightarrow>
          (let crc32_hash = zlib_crc32 bs AND 0xFFFFFFFF;
               port_number = MIN_PORT + crc32_hash mod (MAX_PORT - MIN_PORT)
           in Inr port_number))"

section \<open>app.py: constants and start-up\<close>

definition LOCAL_CLIENT_IP :: pystr where
  "LOCAL_CLIENT_IP = lit ''0.0.0.0''"

definition APP_NAME :: pystr where
  "APP_NAME = lit ''depth_estimator''"

definition DEFAULT_PORT :: "encode_error + int" where
  "DEFAULT_PORT = string_to_port_crc32 APP_NAME"

text \<open>
  The main block launches the interface with \<open>server_name=LOCAL_CLIENT_IP\<close> and
  \<open>server_port=DEFAULT_PORT\<close>; \<open>main_launch\<close> is the pair of arguments it passes, or
  the error with which the module-level computation of \<open>DEFAULT_PORT\<close> stops.
\<close>

record launch_args =
  server_name :: pystr
  server_port :: int

definition main_launch :: "encode_error + launch_args" where
  "main_launch =
     (case DEFAULT_PORT of
        Inl e \<Rightarrow> Inl e
      | Inr p \<Rightarrow> Inr \<lparr>server_name = LOCAL_CLIENT_IP, server_port = p\<rparr>)"

section \<open>The environment of the depth-estimation path\<close>

text \<open>
  The path from the button to the depth image calls into PyTorch, pathlib, the
  \<open>transformers\<close> library, NumPy and OpenCV. What these return is a parameter of the
  model, collected in the record \<open>env\<close>; what the repository's code does with it is
  modelled below, function by function. Every call that leaves the repository's code
  and every log entry is recorded, in order, in a trace of events, which is the state
  the functions pass along.
\<close>

datatype device = Mps | Cuda | Cpu

definition device_str :: "device \<Rightarrow> pystr" where
  "device_str d = (case d of Mps \<Rightarrow> lit ''mps'' | Cuda \<Rightarrow> lit ''cuda'' | Cpu \<Rightarrow> lit ''cpu'')"

text \<open>
  A \<open>pathlib.Path\<close> is identified by its string form \<open>str(path)\<close>. The argument of
  \<open>Path(...)\<close> is a \<open>str\<close> or a \<open>Path\<close> (\<open>Union[str, Path]\<close>).
\<close>

datatype path = Path pystr

fun path_str :: "path \<Rightarrow> pystr" where
  "path_str (Path s) = s"

datatype path_like = Str pystr | PathObj path

text \<open>
  The exceptions of class \<open>Exception\<close> on this path: the \<open>FileNotFoundError\<close> the
  repository raises itself, the \<open>KeyError\<close> of a dictionary lookup, and any exception
  raised inside a library, of which the model keeps the message. \<open>str_exn\<close> is
  \<open>str(e)\<close>, what an f-string prints for \<open>{e}\<close>; for \<open>KeyError\<close> it is the
  \<open>repr\<close> of the key, here a key free of quotes and escapes.
\<close>

datatype exn = FileNotFoundError pystr | KeyError pystr | LibraryError pystr

definition str_exn :: "exn \<Rightarrow> pystr" where
  "str_exn e =
     (case e of
        FileNotFoundError msg \<Rightarrow> msg
      | KeyError k \<Rightarrow> lit [CHR 0x27] @ k @ lit [CHR 0x27]
      | LibraryError msg \<Rightarrow> msg)"

text \<open>
  Arrays: the depth map is a two-dimensional array of 8-bit values, a list of rows; the
  coloured image is a three-dimensional one, a list of rows of pixels, each pixel the
  list of its channels.
\<close>

type_synonym gray_array = "8 word list list"
type_synonym color_array = "8 word list list list"

definition has_shape2 :: "nat \<Rightarrow> nat \<Rightarrow> gray_array \<Rightarrow> bool" where
  "has_shape2 h w a = (length a = h \<and> list_all (\<lambda>row. length row = w) a)"

definition has_shape3 :: "nat \<Rightarrow> nat \<Rightarrow> nat \<Rightarrow> color_array \<Rightarrow> bool" where
  "has_shape3 h w c a =
     (length a = h \<and> list_all (\<lambda>row. length row = w \<and> list_all (\<lambda>px. length px = c) row) a)"

text \<open>
  The result of the constructed pipeline is a dictionary; the model keeps, for each key,
  the array \<open>np.array\<close> makes of the value. A constructed pipeline is the function from
  the path string it is called with to that result, or to the exception it raises.
\<close>

type_synonym hf_result = "pystr \<rightharpoonup> gray_array"
type_synonym hf_pipeline = "pystr \<Rightarrow> exn + hf_result"

record env =
  mps_is_available :: bool
  cuda_is_available :: bool
  path_parse :: "pystr \<Rightarrow> pystr"
  path_exists :: "path \<Rightarrow> bool"
  transformers_pipeline :: "pystr \<Rightarrow> pystr \<Rightarrow> device \<Rightarrow> exn + hf_pipeline"
  colormap_inferno :: "8 word \<Rightarrow> 8 word \<times> 8 word \<times> 8 word"
  applyColorMap_no_pixels :: "exn + color_array"

datatype event =
    MpsIsAvailable
  | CudaIsAvailable
  | LogInfo pystr
  | LogError pystr
  | PathExists path
  | PipelineConstruct pystr pystr device
  | PipelineRun pystr

type_synonym trace = "event list"

text \<open>
  \<open>Path(x)\<close>: pathlib parses the text of a \<open>str\<close> (\<open>path_parse\<close>, which for instance
  drops a trailing slash); a \<open>Path\<close> is taken as it is.
\<close>

fun to_Path :: "env \<Rightarrow> path_like \<Rightarrow> path" where
  "to_Path env (Str s) = Path (path_parse env s)"
| "to_Path env (PathObj p) = p"

fun str_path_like :: "path_like \<Rightarrow> pystr" where
  "str_path_like (Str s) = s"
| "str_path_like (PathObj p) = path_str p"

section \<open>func.py: device selection and the pipeline class\<close>

definition set_device :: "env \<Rightarrow> trace \<Rightarrow> device \<times> trace" where
  "set_device env t =
     (let t1 = t @ [MpsIsAvailable];
          (d, t2) =
            (if mps_is_available env then (Mps, t1)
             else (let t2 = t1 @ [CudaIsAvailable]
                   in if cuda_is_available env then (Cuda, t2) else (Cpu, t2)))
      in (d, t2 @ [LogInfo (lit ''Using device: '' @ device_str d)]))"

record DepthAnythingPipeline =
  model_id :: pystr
  device :: device

definition init :: "env \<Rightarrow> pystr \<Rightarrow> trace \<Rightarrow> DepthAnythingPipeline \<times> trace" where
  "init env mid t =
     (let (d, t') = set_device env t
      in (\<lparr>model_id = mid, device = d\<rparr>, t'))"

definition validate_image_path :: "env \<Rightarrow> path_like \<Rightarrow> trace \<Rightarrow> (exn + path) \<times> trace" where
  "validate_image_path env image_path t =
     (let p = to_Path env image_path;
          t' = t @ [PathExists p]
      in if \<not> path_exists env p
         then (Inl (FileNotFoundError (lit ''Image file '' @ path_str p @ lit '' not found.'')), t')
         else (Inr p, t'))"

definition setup_pipeline ::
  "env \<Rightarrow> DepthAnythingPipeline \<Rightarrow> trace \<Rightarrow> (exn + hf_pipeline) \<times> trace" where
  "setup_pipeline env self t =
     (let t' = t @ [PipelineConstruct (lit ''depth-estimation'') (model_id self) (device self)]
      in case transformers_pipeline env (lit ''depth-estimation'') (model_id self) (device self) of
           Inr depth_pipeline \<Rightarrow>
             (Inr depth_pipeline, t' @ [LogInfo (lit ''Model loaded successfully.'')])
         | Inl e \<Rightarrow>
             (Inl e, t' @ [LogError (lit ''Failed to load model: '' @ str_exn e)]))"

definition call ::
  "env \<Rightarrow> DepthAnythingPipeline \<Rightarrow> path_like \<Rightarrow> trace \<Rightarrow> (exn + hf_result) \<times> trace" where
  "call env self image_path t =
     (case validate_image_path env image_path t of
        (Inl e, t1) \<Rightarrow> (Inl e, t1)
      | (Inr p, t1) \<Rightarrow>
          (case setup_pipeline env self t1 of
             (Inl e, t2) \<Rightarrow> (Inl e, t2)
           | (Inr depth_pipeline, t2) \<Rightarrow>
               (depth_pipeline (path_str p), t2 @ [PipelineRun (path_str p)])))"

section \<open>app.py: the presentation adapter\<close>

text \<open>
  \<open>cv2.applyColorMap\<close> on an 8-bit single-channel image replaces each value by the
  three channels (blue, green, red) its colour table gives it. What OpenCV does with an
  array that has no pixel is left to the environment. The slice \<open>[:, :, ::-1]\<close>
  reverses the channels of every pixel.
\<close>

definition no_pixels :: "gray_array \<Rightarrow> bool" where
  "no_pixels a = list_all (\<lambda>row. row = []) a"

definition applyColorMap :: "env \<Rightarrow> gray_array \<Rightarrow> exn + color_array" where
  "applyColorMap env src =
     (if no_pixels src then applyColorMap_no_pixels env
      else Inr (map (map (\<lambda>v. case colormap_inferno env v of (b, g, r) \<Rightarrow> [b, g, r])) src))"

definition reverse_channels :: "color_array \<Rightarrow> color_array" where
  "reverse_channels a = map (map rev) a"

definition estimate_depth :: "env \<Rightarrow> path_like \<Rightarrow> trace \<Rightarrow> (exn + color_array) \<times> trace" where
  "estimate_depth env image_path t =
     (let (pipeline, t1) = init env DEFAULT_MODEL_ID t;
          t2 = t1 @ [LogInfo (lit ''Estimating depth for image: '' @ str_path_like image_path)]
      in case call env pipeline image_path t2 of
           (Inl e, t3) \<Rightarrow> (Inl e, t3)
         | (Inr res, t3) \<Rightarrow>
             (case res (lit ''depth'') of
                None \<Rightarrow> (Inl (KeyError (lit ''depth'')), t3)
              | Some depth \<Rightarrow>
                  (case applyColorMap env depth of
                     Inl e \<Rightarrow> (Inl e, t3)
                   | Inr img \<Rightarrow> (Inr (reverse_channels img), t3))))"

text \<open>
  The second component of the pair the wrapper returns is the depth image or, when an
  exception was caught, the error text.
\<close>

datatype slider_value = DepthImage color_array | ErrorText pystr

definition estimate_depth_wrapper :: "env \<Rightarrow> pystr \<Rightarrow> trace \<Rightarrow> (pystr \<times> slider_value) \<times> trace" where
  "estimate_depth_wrapper env image_fp t =
     (case estimate_depth env (PathObj (to_Path env (Str image_fp))) t of
        (Inr img, t') \<Rightarrow> ((image_fp, DepthImage img), t')
      | (Inl e, t') \<Rightarrow> ((image_fp, ErrorText (lit ''Error during estimation: '' @ str_exn e)), t'))"

text \<open>Successive presses of the button: the trace is all that passes from one to the next.\<close>

fun estimate_all :: "env \<Rightarrow> pystr list \<Rightarrow> trace \<Rightarrow> trace" where
  "estimate_all env [] t = t"
| "estimate_all env (fp # fps) t = estimate_all env fps (snd (estimate_depth_wrapper env fp t))"

subsection \<open>Reading a trace\<close>

fun is_construct :: "event \<Rightarrow> bool" where
  "is_construct (PipelineConstruct _ _ _) = True"
| "is_construct _ = False"

definition constructions :: "trace \<Rightarrow> event list" where
  "constructions t = filter is_construct t"

definition device_selections :: "trace \<Rightarrow> nat" where
  "device_selections t = length (filter (\<lambda>e. e = MpsIsAvailable) t)"

text \<open>\<open>contains s sub\<close> is Python's \<open>sub in s\<close> on strings.\<close>

fun starts_with :: "pystr \<Rightarrow> pystr \<Rightarrow> bool" where
  "starts_with s [] = True"
| "starts_with [] (c # cs) = False"
| "starts_with (x # xs) (c # cs) = (x = c \<and> starts_with xs cs)"

fun contains :: "pystr \<Rightarrow> pystr \<Rightarrow> bool" where
  "contains [] sub = starts_with [] sub"
| "contains (x # xs) sub = (starts_with (x # xs) sub \<or> contains xs sub)"

section \<open>An example environment\<close>

text \<open>
  A machine without accelerators on which the file \<open>cat.png\<close> exists and no other does,
  a pipeline that returns a depth map of two rows and three columns, and a colour table
  that is easy to follow. In the second environment the model cannot be loaded.
\<close>

definition example_depth :: gray_array where
  "example_depth = [[0, 128, 200], [7, 9, 11]]"

definition example_pipeline :: hf_pipeline where
  "example_pipeline = (\<lambda>s. Inr [lit ''depth'' \<mapsto> example_depth])"

definition example_env :: env where
  "example_env =
     \<lparr>mps_is_available = False,
      cuda_is_available = False,
      path_parse = (\<lambda>s. s),
      path_exists = (\<lambda>p. p = Path (lit ''cat.png'')),
      transformers_pipeline = (\<lambda>task m d. Inr example_pipeline),
      colormap_inferno = (\<lambda>v. (v, v + 1, v + 2)),
      applyColorMap_no_pixels = Inl (LibraryError (lit ''cv2.error''))\<rparr>"

definition example_env_load_fails :: env where
  "example_env_load_fails =
     example_env\<lparr>transformers_pipeline :=
       (\<lambda>task m d. Inl (LibraryError (lit ''connection refused'')))\<rparr>"

section \<open>Port derivation: lemmas\<close>

lemma funpow_8: "(f ^^ 8) x = f (f (f (f (f (f (f (f x)))))))"
  by (simp add: numeral_eq_Suc)

lemma encode_from_total:
  "list_all encodable s \<Longrightarrow> \<exists>bs. encode_from i s = Inr bs"
proof (induction s arbitrary: i)
  case Nil
  show ?case by simp
next
  case (Cons c cs)
  from Cons.prems have "list_all encodable cs" by simp
  then obtain bs where "encode_from (Suc i) cs = Inr bs"
    using Cons.IH by blast
  with Cons.prems show ?case by simp
qed

lemma encode_from_fails:
  "\<not> list_all encodable s \<Longrightarrow> \<exists>c j. encode_from i s = Inl (UnicodeEncodeError c j)"
proof (induction s arbitrary: i)
  case Nil
  then show ?case by simp
next
  case (Cons c cs)
  show ?case
  proof (cases "encodable c")
    case False
    then show ?thesis by simp
  next
    case True
    with Cons.prems have "\<not> list_all encodable cs" by simp
    then obtain c' j where "encode_from (Suc i) cs = Inl (UnicodeEncodeError c' j)"
      using Cons.IH by blast
    with True show ?thesis by simp
  qed
qed

lemma port_of_hash_range:
  "MIN_PORT \<le> MIN_PORT + (h AND 0xFFFFFFFF) mod (MAX_PORT - MIN_PORT) \<and>
   MIN_PORT + (h AND 0xFFFFFFFF) mod (MAX_PORT - MIN_PORT) < MAX_PORT"
  by (simp add: MIN_PORT_def MAX_PORT_def)

lemma string_to_port_crc32_encoded:
  "encode s = Inr bs \<Longrightarrow>
   \<exists>p. string_to_port_crc32 s = Inr p \<and> 10000 \<le> p \<and> p < 60000"
  using port_of_hash_range [of "zlib_crc32 bs"]
  by (simp add: string_to_port_crc32_def Let_def MIN_PORT_def MAX_PORT_def)

lemma string_to_port_crc32_encodable:
  assumes "encodable_str s"
  shows "\<exists>p. string_to_port_crc32 s = Inr p \<and> 10000 \<le> p \<and> p < 60000"
proof -
  from assms obtain bs where "encode s = Inr bs"
    using encode_from_total [of s 0] by (auto simp: encodable_str_def encode_def)
  then show ?thesis by (rule string_to_port_crc32_encoded)
qed

lemma string_to_port_crc32_not_encodable:
  assumes "\<not> encodable_str s"
  shows "\<exists>c j. string_to_port_crc32 s = Inl (UnicodeEncodeError c j)"
proof -
  from assms obtain c j where "encode s = Inl (UnicodeEncodeError c j)"
    using encode_from_fails [of s 0] by (auto simp: encodable_str_def encode_def)
  then show ?thesis by (simp add: string_to_port_crc32_def)
qed

lemma encode_depth_estimator:
  "encode (lit ''depth_estimator'') =
     Inr [100, 101, 112, 116, 104, 95, 101, 115, 116, 105, 109, 97, 116, 111, 114]"
  by (simp add: lit_def encode_def encodable_def is_surrogate_def utf8_char_def)

lemma crc32_depth_estimator:
  "zlib_crc32 [100, 101, 112, 116, 104, 95, 101, 115, 116, 105, 109, 97, 116, 111, 114]
     = 3322335944"
  by (simp add: zlib_crc32_def crc32_byte_def funpow_8 crc32_shift_def)

lemma port_depth_estimator: "string_to_port_crc32 (lit ''depth_estimator'') = Inr 45944"
  by (simp add: string_to_port_crc32_def encode_depth_estimator crc32_depth_estimator
      MIN_PORT_def MAX_PORT_def)

lemma port_empty: "string_to_port_crc32 [] = Inr 10000"
  by (simp add: string_to_port_crc32_def encode_def zlib_crc32_def MIN_PORT_def MAX_PORT_def)

section \<open>Port derivation: the claims\<close>

text \<open>
  C1, as stated, fails: the one-character string \<open>"\ud800"\<close> (a lone surrogate) is a
  non-empty \<open>str\<close>, and \<open>string_to_port_crc32\<close> yields no integer for it, since
  \<open>input_string.encode()\<close> raises \<open>UnicodeEncodeError\<close>.
\<close>

theorem string_to_port_crc32_surrogate:
  "[0xD800] \<noteq> ([] :: pystr) \<and>
   string_to_port_crc32 [0xD800] = Inl (UnicodeEncodeError 0xD800 0)"
  by (simp add: string_to_port_crc32_def encode_def encodable_def is_surrogate_def)

text \<open>
  C1, amended: for every string \<open>S\<close> that UTF-8 can encode (no surrogate code point),
  empty or not, \<open>string_to_port_crc32\<close> returns an integer \<open>p\<close>, every call on \<open>S\<close>
  returns that same \<open>p\<close> (the function reads nothing but \<open>S\<close> and the two constants),
  and \<open>p\<close> lies in \<open>[10000, 60000)\<close>.
\<close>

theorem string_to_port_crc32_stable_in_range:
  assumes "encodable_str S"
  shows "\<exists>p. string_to_port_crc32 S = Inr p
           \<and> (\<forall>q. string_to_port_crc32 S = Inr q \<longrightarrow> q = p)
           \<and> 10000 \<le> p \<and> p < 60000"
  using string_to_port_crc32_encodable [OF assms] by auto

text \<open>The amended C1 at the string of the euro sign and an emoji.\<close>

theorem string_to_port_crc32_stable_in_range_witness:
  "encodable_str [0x20AC, 0x1F600]
   \<and> (\<exists>p. string_to_port_crc32 [0x20AC, 0x1F600] = Inr p \<and> 10000 \<le> p \<and> p < 60000)"
proof -
  have h: "encodable_str [0x20AC, 0x1F600]"
    by (simp add: encodable_str_def encodable_def is_surrogate_def)
  from string_to_port_crc32_stable_in_range [OF h] show ?thesis using h by blast
qed

text \<open>
  C4: the port derived from \<open>"depth_estimator"\<close> is 45944, \<open>APP_NAME\<close> is that string,
  \<open>DEFAULT_PORT\<close> is that port, and the main block launches the server on
  \<open>0.0.0.0\<close> with it.
\<close>

theorem default_port_45944:
  "APP_NAME = lit ''depth_estimator''
   \<and> string_to_port_crc32 (lit ''depth_estimator'') = Inr 45944
   \<and> DEFAULT_PORT = Inr 45944
   \<and> main_launch = Inr \<lparr>server_name = lit ''0.0.0.0'', server_port = 45944\<rparr>"
  by (simp add: APP_NAME_def DEFAULT_PORT_def main_launch_def LOCAL_CLIENT_IP_def
      port_depth_estimator)

text \<open>
  C10, as stated, fails: \<open>string_to_port_crc32\<close> is not total over all strings. On
  \<open>"a\udfff"\<close> it raises \<open>UnicodeEncodeError\<close> at index 1 and returns no integer.
\<close>

theorem string_to_port_crc32_not_total:
  "string_to_port_crc32 [0x61, 0xDFFF] = Inl (UnicodeEncodeError 0xDFFF 1)"
  by (simp add: string_to_port_crc32_def encode_def encodable_def is_surrogate_def)

text \<open>
  C10, amended: \<open>string_to_port_crc32\<close> returns 10000 for the empty string; it returns
  an integer, and then one in \<open>[10000, 60000)\<close>, exactly for the strings UTF-8 can
  encode, and raises \<open>UnicodeEncodeError\<close> exactly for the others.
\<close>

theorem string_to_port_crc32_total_on_encodable:
  "string_to_port_crc32 [] = Inr 10000
   \<and> ((\<exists>p. string_to_port_crc32 S = Inr p \<and> 10000 \<le> p \<and> p < 60000) \<longleftrightarrow> encodable_str S)
   \<and> ((\<exists>c i. string_to_port_crc32 S = Inl (UnicodeEncodeError c i)) \<longleftrightarrow> \<not> encodable_str S)"
proof (cases "encodable_str S")
  case True
  with string_to_port_crc32_encodable [of S] show ?thesis
    using port_empty by auto
next
  case False
  with string_to_port_crc32_not_encodable [of S] show ?thesis
    using port_empty by auto
qed

text \<open>The amended C10 at the two-character string of \<open>A\<close> and \<open>U+00E9\<close>.\<close>

theorem string_to_port_crc32_total_on_encodable_witness:
  "encodable_str [] \<and> encodable_str [0x41, 0xE9]
   \<and> (\<exists>p. string_to_port_crc32 [0x41, 0xE9] = Inr p \<and> 10000 \<le> p \<and> p < 60000)"
proof -
  have h: "encodable_str [0x41, 0xE9]"
    by (simp add: encodable_str_def encodable_def is_surrogate_def)
  have e: "encodable_str []"
    by (simp add: encodable_str_def)
  from string_to_port_crc32_total_on_encodable [of "[0x41, 0xE9]"] h e show ?thesis by blast
qed

section \<open>The depth-estimation path: lemmas\<close>

lemma constructions_append: "constructions (t @ u) = constructions t @ constructions u"
  by (simp add: constructions_def)

lemma device_selections_append:
  "device_selections (t @ u) = device_selections t + device_selections u"
  by (simp add: device_selections_def)

lemma fst_set_device:
  "fst (set_device env t) =
     (if mps_is_available env then Mps else if cuda_is_available env then Cuda else Cpu)"
  by (simp add: set_device_def Let_def)

lemma snd_set_device:
  "snd (set_device env t) =
     t @ [MpsIsAvailable] @ (if mps_is_available env then [] else [CudaIsAvailable])
       @ [LogInfo (lit ''Using device: '' @ device_str (fst (set_device env t)))]"
  by (simp add: set_device_def Let_def)

lemma constructions_set_device:
  "constructions (snd (set_device env t)) = constructions t"
  by (simp add: snd_set_device constructions_def)

lemma device_selections_set_device:
  "device_selections (snd (set_device env t)) = Suc (device_selections t)"
  by (simp add: snd_set_device device_selections_def)

lemma init_eq:
  "init env mid t = (\<lparr>model_id = mid, device = fst (set_device env t)\<rparr>, snd (set_device env t))"
  by (simp add: init_def split: prod.splits)

lemma fst_validate_image_path:
  "fst (validate_image_path env x t) =
     (if path_exists env (to_Path env x) then Inr (to_Path env x)
      else Inl (FileNotFoundError
             (lit ''Image file '' @ path_str (to_Path env x) @ lit '' not found.'')))"
  by (simp add: validate_image_path_def Let_def)

lemma snd_validate_image_path:
  "snd (validate_image_path env x t) = t @ [PathExists (to_Path env x)]"
  by (simp add: validate_image_path_def Let_def)

lemma setup_pipeline_Inl:
  "transformers_pipeline env (lit ''depth-estimation'') (model_id self) (device self) = Inl e \<Longrightarrow>
   setup_pipeline env self t =
     (Inl e, t @ [PipelineConstruct (lit ''depth-estimation'') (model_id self) (device self),
                  LogError (lit ''Failed to load model: '' @ str_exn e)])"
  by (simp add: setup_pipeline_def Let_def)

lemma setup_pipeline_Inr:
  "transformers_pipeline env (lit ''depth-estimation'') (model_id self) (device self) = Inr p \<Longrightarrow>
   setup_pipeline env self t =
     (Inr p, t @ [PipelineConstruct (lit ''depth-estimation'') (model_id self) (device self),
                  LogInfo (lit ''Model loaded successfully.'')])"
  by (simp add: setup_pipeline_def Let_def)

lemma constructions_setup_pipeline:
  "constructions (snd (setup_pipeline env self t)) =
     constructions t @ [PipelineConstruct (lit ''depth-estimation'') (model_id self) (device self)]"
  by (cases "transformers_pipeline env (lit ''depth-estimation'') (model_id self) (device self)")
     (simp_all add: setup_pipeline_Inl setup_pipeline_Inr constructions_def)

lemma device_selections_setup_pipeline:
  "device_selections (snd (setup_pipeline env self t)) = device_selections t"
  by (cases "transformers_pipeline env (lit ''depth-estimation'') (model_id self) (device self)")
     (simp_all add: setup_pipeline_Inl setup_pipeline_Inr device_selections_def)

lemma call_missing:
  "\<not> path_exists env (to_Path env x) \<Longrightarrow>
   call env self x t =
     (Inl (FileNotFoundError (lit ''Image file '' @ path_str (to_Path env x) @ lit '' not found.'')),
      t @ [PathExists (to_Path env x)])"
  by (simp add: call_def validate_image_path_def Let_def)

lemma call_present:
  "path_exists env (to_Path env x) \<Longrightarrow>
   call env self x t =
     (case setup_pipeline env self (t @ [PathExists (to_Path env x)]) of
        (Inl e, t2) \<Rightarrow> (Inl e, t2)
      | (Inr depth_pipeline, t2) \<Rightarrow>
          (depth_pipeline (path_str (to_Path env x)), t2 @ [PipelineRun (path_str (to_Path env x))]))"
  by (simp add: call_def validate_image_path_def Let_def)

lemma snd_call_present:
  "path_exists env (to_Path env x) \<Longrightarrow>
   snd (call env self x t) =
     snd (setup_pipeline env self (t @ [PathExists (to_Path env x)]))
       @ (if isl (fst (setup_pipeline env self (t @ [PathExists (to_Path env x)]))) then []
          else [PipelineRun (path_str (to_Path env x))])"
  by (simp add: call_present split: prod.splits sum.splits)

lemma constructions_call:
  "constructions (snd (call env self x t)) =
     constructions t @
       (if path_exists env (to_Path env x)
        then [PipelineConstruct (lit ''depth-estimation'') (model_id self) (device self)] else [])"
proof (cases "path_exists env (to_Path env x)")
  case True
  then show ?thesis
    by (simp add: snd_call_present constructions_append constructions_setup_pipeline)
       (simp add: constructions_def)
next
  case False
  then show ?thesis by (simp add: call_missing constructions_def)
qed

lemma device_selections_call:
  "device_selections (snd (call env self x t)) = device_selections t"
proof (cases "path_exists env (to_Path env x)")
  case True
  then show ?thesis
    by (simp add: snd_call_present device_selections_append device_selections_setup_pipeline)
       (simp add: device_selections_def)
next
  case False
  then show ?thesis by (simp add: call_missing device_selections_def)
qed

lemma snd_estimate_depth:
  "snd (estimate_depth env x t) =
     snd (call env \<lparr>model_id = DEFAULT_MODEL_ID, device = fst (set_device env t)\<rparr> x
            (snd (set_device env t) @ [LogInfo (lit ''Estimating depth for image: '' @ str_path_like x)]))"
  by (simp add: estimate_depth_def init_eq Let_def split: prod.splits sum.splits option.splits)

lemma constructions_estimate_depth:
  "constructions (snd (estimate_depth env x t)) =
     constructions t @
       (if path_exists env (to_Path env x)
        then [PipelineConstruct (lit ''depth-estimation'') DEFAULT_MODEL_ID (fst (set_device env t))]
        else [])"
  by (simp add: snd_estimate_depth constructions_call constructions_append
      constructions_set_device) (simp add: constructions_def)

lemma device_selections_estimate_depth:
  "device_selections (snd (estimate_depth env x t)) = Suc (device_selections t)"
  by (simp add: snd_estimate_depth device_selections_call device_selections_append
      device_selections_set_device) (simp add: device_selections_def)

lemma snd_estimate_depth_wrapper:
  "snd (estimate_depth_wrapper env fp t) =
     snd (estimate_depth env (PathObj (to_Path env (Str fp))) t)"
  by (simp add: estimate_depth_wrapper_def split: prod.splits sum.splits)

lemma device_selections_estimate_all:
  "device_selections (estimate_all env fps t) = device_selections t + length fps"
  by (induction fps arbitrary: t)
     (simp_all add: snd_estimate_depth_wrapper device_selections_estimate_depth)

lemma constructions_estimate_all:
  "length (constructions (estimate_all env fps t)) =
     length (constructions t)
       + length (filter (\<lambda>fp. path_exists env (to_Path env (Str fp))) fps)"
  by (induction fps arbitrary: t)
     (simp_all add: snd_estimate_depth_wrapper constructions_estimate_depth)

lemma starts_with_append: "starts_with (sub @ r) sub"
  by (induction sub) simp_all

lemma starts_with_contains: "starts_with s sub \<Longrightarrow> contains s sub"
  by (cases s) simp_all

lemma contains_append: "contains (a @ sub @ b) sub"
proof (induction a)
  case Nil
  show ?case by (simp add: starts_with_contains starts_with_append)
next
  case (Cons x a)
  then show ?case by simp
qed

lemma fst_estimate_depth_missing:
  "\<not> path_exists env (to_Path env x) \<Longrightarrow>
   fst (estimate_depth env x t) =
     Inl (FileNotFoundError (lit ''Image file '' @ path_str (to_Path env x) @ lit '' not found.''))"
  by (simp add: estimate_depth_def init_eq Let_def call_missing)

lemma fst_estimate_depth_load_fails:
  "path_exists env (to_Path env x) \<Longrightarrow>
   transformers_pipeline env (lit ''depth-estimation'') DEFAULT_MODEL_ID (fst (set_device env t)) = Inl e \<Longrightarrow>
   fst (estimate_depth env x t) = Inl e"
  by (simp add: estimate_depth_def init_eq Let_def call_present setup_pipeline_Inl)

lemma fst_estimate_depth_run:
  "path_exists env (to_Path env x) \<Longrightarrow>
   transformers_pipeline env (lit ''depth-estimation'') DEFAULT_MODEL_ID (fst (set_device env t))
     = Inr depth_pipeline \<Longrightarrow>
   fst (estimate_depth env x t) =
     (case depth_pipeline (path_str (to_Path env x)) of
        Inl e \<Rightarrow> Inl e
      | Inr res \<Rightarrow>
          (case res (lit ''depth'') of
             None \<Rightarrow> Inl (KeyError (lit ''depth''))
           | Some depth \<Rightarrow>
               (case applyColorMap env depth of
                  Inl e \<Rightarrow> Inl e
                | Inr img \<Rightarrow> Inr (reverse_channels img))))"
  by (simp add: estimate_depth_def init_eq Let_def call_present setup_pipeline_Inr
      split: sum.splits option.splits)

lemma has_pixels:
  assumes "has_shape2 h w depth" "0 < h" "0 < w"
  shows "\<not> no_pixels depth"
proof -
  from assms(1,2) obtain row where "row \<in> set depth"
    by (cases depth) (auto simp: has_shape2_def)
  moreover from this assms(1,3) have "row \<noteq> []"
    by (auto simp: has_shape2_def list_all_iff)
  ultimately show ?thesis by (auto simp: no_pixels_def list_all_iff)
qed

lemma colored_shape:
  "has_shape2 h w depth \<Longrightarrow>
   has_shape3 h w 3 (map (map (\<lambda>v. case f v of (b, g, r) \<Rightarrow> [r, g, b])) depth)"
  by (auto simp: has_shape2_def has_shape3_def list_all_iff split: prod.splits)

lemma reverse_channels_colormap:
  "reverse_channels (map (map (\<lambda>v. case f v of (b, g, r) \<Rightarrow> [b, g, r])) depth) =
     map (map (\<lambda>v. case f v of (b, g, r) \<Rightarrow> [r, g, b])) depth"
  by (simp add: reverse_channels_def comp_def split: prod.splits)

lemma error_text_contains_Error:
  "contains (lit ''Error during estimation: '' @ s) (lit ''Error'')"
proof -
  have "lit ''Error during estimation: '' @ s = [] @ lit ''Error'' @ (lit '' during estimation: '' @ s)"
    by (simp add: lit_def)
  then show ?thesis by (simp only: contains_append)
qed

lemma estimate_depth_wrapper_Inl:
  "fst (estimate_depth env (PathObj (to_Path env (Str fp))) t) = Inl e \<Longrightarrow>
   fst (estimate_depth_wrapper env fp t) =
     (fp, ErrorText (lit ''Error during estimation: '' @ str_exn e))"
  by (cases "estimate_depth env (PathObj (to_Path env (Str fp))) t")
     (simp add: estimate_depth_wrapper_def)

lemma fst_fst_estimate_depth_wrapper: "fst (fst (estimate_depth_wrapper env fp t)) = fp"
  by (cases "estimate_depth env (PathObj (to_Path env (Str fp))) t")
     (simp add: estimate_depth_wrapper_def split: sum.splits)

section \<open>The depth-estimation path: the claims\<close>

text \<open>
  C2: for every path that does not exist, \<open>__call__\<close> fails with a
  \<open>FileNotFoundError\<close> whose message contains the string form of the missing path;
  the only thing it has done by then is the existence check, and the trace holds no
  pipeline construction that was not there before: \<open>setup_pipeline\<close> was not
  entered.
\<close>

theorem call_missing_path:
  assumes "\<not> path_exists env (to_Path env image_path)"
  shows "call env self image_path t =
           (Inl (FileNotFoundError
              (lit ''Image file '' @ path_str (to_Path env image_path) @ lit '' not found.'')),
            t @ [PathExists (to_Path env image_path)])
         \<and> contains (lit ''Image file '' @ path_str (to_Path env image_path) @ lit '' not found.'')
             (path_str (to_Path env image_path))
         \<and> constructions (snd (call env self image_path t)) = constructions t"
  using assms by (simp add: call_missing contains_append constructions_def)

text \<open>
  C2 at the example environment: \<open>dog.png\<close> does not exist.
\<close>

theorem call_missing_path_witness:
  "\<not> path_exists example_env (to_Path example_env (Str (lit ''dog.png'')))
   \<and> call example_env \<lparr>model_id = DEFAULT_MODEL_ID, device = Cpu\<rparr> (Str (lit ''dog.png'')) [] =
       (Inl (FileNotFoundError (lit ''Image file dog.png not found.'')),
        [PathExists (Path (lit ''dog.png''))])"
proof -
  have h: "\<not> path_exists example_env (to_Path example_env (Str (lit ''dog.png'')))"
    by (simp add: example_env_def lit_def)
  from call_missing_path [OF h, of "\<lparr>model_id = DEFAULT_MODEL_ID, device = Cpu\<rparr>" "[]"]
  have "call example_env \<lparr>model_id = DEFAULT_MODEL_ID, device = Cpu\<rparr> (Str (lit ''dog.png'')) [] =
       (Inl (FileNotFoundError (lit ''Image file dog.png not found.'')),
        [PathExists (Path (lit ''dog.png''))])"
    by (simp add: example_env_def lit_def)
  with h show ?thesis by simp
qed

text \<open>
  C3: the first component of the pair \<open>estimate_depth_wrapper\<close> returns is always
  the path it was given. Whatever exception \<open>e\<close> the estimation raises (a missing
  file, a model that cannot be loaded, a failed inference, a result without depth, a
  failed colour mapping), the wrapper returns the pair of the path and the text
  \<open>Error during estimation: \<close> followed by \<open>str(e)\<close>, which contains
  \<open>Error\<close>. In particular so when pipeline construction raises, and when the file
  is missing.
\<close>

theorem estimate_depth_wrapper_catches:
  "fst (fst (estimate_depth_wrapper env image_fp t)) = image_fp
   \<and> (fst (estimate_depth env (PathObj (to_Path env (Str image_fp))) t) = Inl e \<longrightarrow>
        fst (estimate_depth_wrapper env image_fp t) =
          (image_fp, ErrorText (lit ''Error during estimation: '' @ str_exn e))
        \<and> contains (lit ''Error during estimation: '' @ str_exn e) (lit ''Error''))
   \<and> (path_exists env (to_Path env (Str image_fp))
        \<and> transformers_pipeline env (lit ''depth-estimation'') DEFAULT_MODEL_ID
            (fst (set_device env t)) = Inl e' \<longrightarrow>
        fst (estimate_depth_wrapper env image_fp t) =
          (image_fp, ErrorText (lit ''Error during estimation: '' @ str_exn e')))
   \<and> (\<not> path_exists env (to_Path env (Str image_fp)) \<longrightarrow>
        fst (estimate_depth_wrapper env image_fp t) =
          (image_fp, ErrorText (lit ''Error during estimation: '' @ lit ''Image file ''
             @ path_str (to_Path env (Str image_fp)) @ lit '' not found.'')))"
proof -
  have load: "fst (estimate_depth_wrapper env image_fp t) =
          (image_fp, ErrorText (lit ''Error during estimation: '' @ str_exn e'))"
    if "path_exists env (to_Path env (Str image_fp))"
      and "transformers_pipeline env (lit ''depth-estimation'') DEFAULT_MODEL_ID
            (fst (set_device env t)) = Inl e'"
  proof -
    from that have "fst (estimate_depth env (PathObj (to_Path env (Str image_fp))) t) = Inl e'"
      using fst_estimate_depth_load_fails [of env "PathObj (to_Path env (Str image_fp))" t e']
      by simp
    then show ?thesis by (rule estimate_depth_wrapper_Inl)
  qed
  have missing: "fst (estimate_depth_wrapper env image_fp t) =
          (image_fp, ErrorText (lit ''Error during estimation: '' @ lit ''Image file ''
             @ path_str (to_Path env (Str image_fp)) @ lit '' not found.''))"
    if "\<not> path_exists env (to_Path env (Str image_fp))"
  proof -
    from that have "fst (estimate_depth env (PathObj (to_Path env (Str image_fp))) t) =
        Inl (FileNotFoundError (lit ''Image file '' @ path_str (to_Path env (Str image_fp))
               @ lit '' not found.''))"
      using fst_estimate_depth_missing [of env "PathObj (to_Path env (Str image_fp))" t]
      by simp
    from estimate_depth_wrapper_Inl [OF this] show ?thesis by (simp add: str_exn_def)
  qed
  show ?thesis
    using load missing
    by (simp add: fst_fst_estimate_depth_wrapper estimate_depth_wrapper_Inl
        error_text_contains_Error)
qed

text \<open>
  C3 at the example environments: a model that cannot be loaded, and a missing file.
\<close>

theorem estimate_depth_wrapper_catches_witness:
  "path_exists example_env_load_fails (to_Path example_env_load_fails (Str (lit ''cat.png'')))
   \<and> fst (estimate_depth_wrapper example_env_load_fails (lit ''cat.png'') []) =
       (lit ''cat.png'', ErrorText (lit ''Error during estimation: connection refused''))
   \<and> fst (estimate_depth_wrapper example_env (lit ''dog.png'') []) =
       (lit ''dog.png'', ErrorText (lit ''Error during estimation: Image file dog.png not found.''))"
proof -
  have h1: "path_exists example_env_load_fails (to_Path example_env_load_fails (Str (lit ''cat.png'')))"
    by (simp add: example_env_load_fails_def example_env_def)
  have h2: "transformers_pipeline example_env_load_fails (lit ''depth-estimation'') DEFAULT_MODEL_ID
              (fst (set_device example_env_load_fails [])) = Inl (LibraryError (lit ''connection refused''))"
    by (simp add: example_env_load_fails_def example_env_def)
  have h3: "\<not> path_exists example_env (to_Path example_env (Str (lit ''dog.png'')))"
    by (simp add: example_env_def lit_def)
  from estimate_depth_wrapper_catches
         [of example_env_load_fails "lit ''cat.png''" "[]" _ "LibraryError (lit ''connection refused'')"]
       h1 h2
  have a: "fst (estimate_depth_wrapper example_env_load_fails (lit ''cat.png'') []) =
       (lit ''cat.png'', ErrorText (lit ''Error during estimation: connection refused''))"
    by (simp add: str_exn_def lit_def)
  from estimate_depth_wrapper_catches [of example_env "lit ''dog.png''" "[]"] h3
  have b: "fst (estimate_depth_wrapper example_env (lit ''dog.png'') []) =
       (lit ''dog.png'', ErrorText (lit ''Error during estimation: Image file dog.png not found.''))"
    by (simp add: example_env_def lit_def)
  from h1 a b show ?thesis by simp
qed

text \<open>
  C5: \<open>validate_image_path\<close> raises if and only if \<open>Path(image_path).exists()\<close> is
  false, what it raises is the \<open>FileNotFoundError\<close> naming the path, and otherwise it
  returns \<open>Path(image_path)\<close>, which for an argument that is a \<open>Path\<close> already is
  the argument itself.
\<close>

theorem validate_image_path_iff:
  "(isl (fst (validate_image_path env x t)) \<longleftrightarrow> \<not> path_exists env (to_Path env x))
   \<and> fst (validate_image_path env x t) =
       (if path_exists env (to_Path env x) then Inr (to_Path env x)
        else Inl (FileNotFoundError
               (lit ''Image file '' @ path_str (to_Path env x) @ lit '' not found.'')))
   \<and> to_Path env (PathObj p) = p"
  by (simp add: fst_validate_image_path)

text \<open>
  C5 at the example environment, for a file that exists and one that does not.
\<close>

theorem validate_image_path_iff_witness:
  "fst (validate_image_path example_env (Str (lit ''cat.png'')) []) = Inr (Path (lit ''cat.png''))
   \<and> fst (validate_image_path example_env (PathObj (Path (lit ''dog.png''))) []) =
       Inl (FileNotFoundError (lit ''Image file dog.png not found.''))"
  using validate_image_path_iff [of example_env "Str (lit ''cat.png'')" "[]"]
        validate_image_path_iff [of example_env "PathObj (Path (lit ''dog.png''))" "[]"]
  by (simp add: example_env_def lit_def)

text \<open>
  C6: when the image path exists, the pipeline is constructed and, run on the path,
  returns a result whose \<open>depth\<close> is an array of \<open>h\<close> rows and \<open>w\<close> columns (a depth
  map with at least one pixel), \<open>estimate_depth\<close> returns an array of \<open>h\<close> rows and
  \<open>w\<close> columns of 3 channels: each depth value replaced by its colour, red first.
\<close>

theorem estimate_depth_shape:
  assumes "path_exists env (to_Path env image_path)"
    and "transformers_pipeline env (lit ''depth-estimation'') DEFAULT_MODEL_ID
           (fst (set_device env t)) = Inr depth_pipeline"
    and "depth_pipeline (path_str (to_Path env image_path)) = Inr res"
    and "res (lit ''depth'') = Some depth"
    and "has_shape2 h w depth" and "0 < h" and "0 < w"
  shows "\<exists>img. fst (estimate_depth env image_path t) = Inr img
           \<and> img = map (map (\<lambda>v. case colormap_inferno env v of (b, g, r) \<Rightarrow> [r, g, b])) depth
           \<and> has_shape3 h w 3 img"
proof -
  from assms(5-7) have "\<not> no_pixels depth" by (rule has_pixels)
  then have "applyColorMap env depth =
      Inr (map (map (\<lambda>v. case colormap_inferno env v of (b, g, r) \<Rightarrow> [b, g, r])) depth)"
    by (simp add: applyColorMap_def)
  with assms(1-4) have "fst (estimate_depth env image_path t) =
      Inr (map (map (\<lambda>v. case colormap_inferno env v of (b, g, r) \<Rightarrow> [r, g, b])) depth)"
    by (simp add: fst_estimate_depth_run reverse_channels_colormap)
  with colored_shape [OF assms(5)] show ?thesis by simp
qed

text \<open>
  C6 at the example environment: a depth map of shape (2, 3) gives an image of shape
  (2, 3, 3).
\<close>

theorem estimate_depth_shape_witness:
  "has_shape2 2 3 example_depth
   \<and> fst (estimate_depth example_env (PathObj (Path (lit ''cat.png''))) []) =
       Inr [[[2, 1, 0], [130, 129, 128], [202, 201, 200]], [[9, 8, 7], [11, 10, 9], [13, 12, 11]]]
   \<and> has_shape3 2 3 3
       [[[2, 1, 0], [130, 129, 128], [202, 201, 200]], [[9, 8, 7], [11, 10, 9], [13, 12, 11 :: 8 word]]]"
proof -
  have h1: "path_exists example_env (to_Path example_env (PathObj (Path (lit ''cat.png''))))"
    by (simp add: example_env_def)
  have h2: "transformers_pipeline example_env (lit ''depth-estimation'') DEFAULT_MODEL_ID
              (fst (set_device example_env [])) = Inr example_pipeline"
    by (simp add: example_env_def)
  have h3: "example_pipeline (path_str (to_Path example_env (PathObj (Path (lit ''cat.png'')))))
              = Inr [lit ''depth'' \<mapsto> example_depth]"
    by (simp add: example_pipeline_def)
  have h4: "[lit ''depth'' \<mapsto> example_depth] (lit ''depth'') = Some example_depth"
    by simp
  have h5: "has_shape2 2 3 example_depth"
    by (simp add: has_shape2_def example_depth_def)
  from estimate_depth_shape [OF h1 h2 h3 h4 h5] h5
  show ?thesis by (simp add: example_env_def example_depth_def has_shape3_def)
qed

text \<open>
  C7: \<open>set_device\<close> asks for MPS first, asks for CUDA only when MPS is not
  available, and returns the first that is available, otherwise the CPU; it logs the
  choice. It has no failing branch: it returns a device in every environment, the CPU
  when no accelerator is available.
\<close>

theorem set_device_preference:
  "fst (set_device env t) =
     (if mps_is_available env then Mps else if cuda_is_available env then Cuda else Cpu)
   \<and> snd (set_device env t) =
       t @ [MpsIsAvailable] @ (if mps_is_available env then [] else [CudaIsAvailable])
         @ [LogInfo (lit ''Using device: '' @ device_str (fst (set_device env t)))]
   \<and> (\<not> mps_is_available env \<and> \<not> cuda_is_available env \<longrightarrow> fst (set_device env t) = Cpu)"
  using fst_set_device [of env t] snd_set_device [of env t] by simp

text \<open>
  C7 at the example environment, which has no accelerator.
\<close>

theorem set_device_preference_witness:
  "\<not> mps_is_available example_env \<and> \<not> cuda_is_available example_env
   \<and> set_device example_env [] =
       (Cpu, [MpsIsAvailable, CudaIsAvailable, LogInfo (lit ''Using device: cpu'')])"
proof -
  have h: "\<not> mps_is_available example_env \<and> \<not> cuda_is_available example_env"
    by (simp add: example_env_def)
  from set_device_preference [of example_env "[]"] h
  have "fst (set_device example_env []) = Cpu"
    and "snd (set_device example_env []) =
           [MpsIsAvailable, CudaIsAvailable, LogInfo (lit ''Using device: cpu'')]"
    by (simp_all add: device_str_def lit_def)
  with h show ?thesis by (simp add: prod_eq_iff)
qed

text \<open>
  C8: every invocation of \<open>estimate_depth\<close> builds its own
  \<open>DepthAnythingPipeline\<close>, whose constructor runs the device selection once more,
  and calls that object; nothing but the trace passes from one invocation to the next.
  When the path passes validation the invocation constructs the inference pipeline
  anew, exactly once and on the device just selected (and when the path is missing it
  constructs none). So \<open>n\<close> invocations select the device \<open>n\<close> times and construct
  as many pipelines as there were existing paths.
\<close>

theorem estimate_depth_constructs_anew:
  "snd (estimate_depth env image_path t) =
     snd (call env \<lparr>model_id = DEFAULT_MODEL_ID, device = fst (set_device env t)\<rparr> image_path
            (snd (set_device env t)
               @ [LogInfo (lit ''Estimating depth for image: '' @ str_path_like image_path)]))
   \<and> device_selections (snd (estimate_depth env image_path t)) = Suc (device_selections t)
   \<and> constructions (snd (estimate_depth env image_path t)) =
       constructions t @
         (if path_exists env (to_Path env image_path)
          then [PipelineConstruct (lit ''depth-estimation'') DEFAULT_MODEL_ID (fst (set_device env t))]
          else [])
   \<and> device_selections (estimate_all env fps t) = device_selections t + length fps
   \<and> length (constructions (estimate_all env fps t)) =
       length (constructions t)
         + length (filter (\<lambda>fp. path_exists env (to_Path env (Str fp))) fps)"
  using snd_estimate_depth [of env image_path t]
        device_selections_estimate_depth [of env image_path t]
        constructions_estimate_depth [of env image_path t]
        device_selections_estimate_all [of env fps t]
        constructions_estimate_all [of env fps t]
  by simp

text \<open>
  C8 at the example environment: three presses of the button, the second on a missing
  file.
\<close>

theorem estimate_depth_constructs_anew_witness:
  "device_selections (estimate_all example_env [lit ''cat.png'', lit ''dog.png'', lit ''cat.png''] []) = 3
   \<and> length (constructions
        (estimate_all example_env [lit ''cat.png'', lit ''dog.png'', lit ''cat.png''] [])) = 2"
  using estimate_depth_constructs_anew
          [of example_env _ "[]" "[lit ''cat.png'', lit ''dog.png'', lit ''cat.png'']"]
  by (simp add: example_env_def lit_def device_selections_def constructions_def)

text \<open>
  C9: when \<open>transformers.pipeline\<close> raises \<open>e\<close>, \<open>setup_pipeline\<close> logs the error
  \<open>Failed to load model: \<close> followed by \<open>str(e)\<close> and raises the same \<open>e\<close>;
  when it returns a pipeline, \<open>setup_pipeline\<close> logs success and returns that
  pipeline. Either way the library was asked exactly once: no retry, no other model.
\<close>

theorem setup_pipeline_logs_and_propagates:
  "(transformers_pipeline env (lit ''depth-estimation'') (model_id self) (device self) = Inl e \<longrightarrow>
      setup_pipeline env self t =
        (Inl e, t @ [PipelineConstruct (lit ''depth-estimation'') (model_id self) (device self),
                     LogError (lit ''Failed to load model: '' @ str_exn e)]))
   \<and> (transformers_pipeline env (lit ''depth-estimation'') (model_id self) (device self) = Inr p \<longrightarrow>
      setup_pipeline env self t =
        (Inr p, t @ [PipelineConstruct (lit ''depth-estimation'') (model_id self) (device self),
                     LogInfo (lit ''Model loaded successfully.'')]))
   \<and> length (constructions (snd (setup_pipeline env self t))) = Suc (length (constructions t))"
  by (simp add: setup_pipeline_Inl setup_pipeline_Inr constructions_setup_pipeline)

text \<open>
  C9 at the example environments: a failing and a succeeding construction.
\<close>

theorem setup_pipeline_logs_and_propagates_witness:
  "setup_pipeline example_env_load_fails \<lparr>model_id = DEFAULT_MODEL_ID, device = Cpu\<rparr> [] =
     (Inl (LibraryError (lit ''connection refused'')),
      [PipelineConstruct (lit ''depth-estimation'') DEFAULT_MODEL_ID Cpu,
       LogError (lit ''Failed to load model: connection refused'')])
   \<and> setup_pipeline example_env \<lparr>model_id = DEFAULT_MODEL_ID, device = Cpu\<rparr> [] =
     (Inr example_pipeline,
      [PipelineConstruct (lit ''depth-estimation'') DEFAULT_MODEL_ID Cpu,
       LogInfo (lit ''Model loaded successfully.'')])"
proof -
  have f: "transformers_pipeline example_env_load_fails (lit ''depth-estimation'')
             (model_id \<lparr>model_id = DEFAULT_MODEL_ID, device = Cpu\<rparr>)
             (device \<lparr>model_id = DEFAULT_MODEL_ID, device = Cpu\<rparr>)
           = Inl (LibraryError (lit ''connection refused''))"
    by (simp add: example_env_load_fails_def example_env_def)
  have s: "transformers_pipeline example_env (lit ''depth-estimation'')
             (model_id \<lparr>model_id = DEFAULT_MODEL_ID, device = Cpu\<rparr>)
             (device \<lparr>model_id = DEFAULT_MODEL_ID, device = Cpu\<rparr>)
           = Inr example_pipeline"
    by (simp add: example_env_def)
  from setup_pipeline_logs_and_propagates
         [of example_env_load_fails "\<lparr>model_id = DEFAULT_MODEL_ID, device = Cpu\<rparr>"
             "LibraryError (lit ''connection refused'')" "[]"] f
       setup_pipeline_logs_and_propagates
         [of example_env "\<lparr>model_id = DEFAULT_MODEL_ID, device = Cpu\<rparr>" _ "[]" example_pipeline] s
  show ?thesis by (simp add: str_exn_def lit_def)
qed

end
